theory Spec2Isabelle
  imports
    Complex_Main
    "HOL-Library.Word"
    "HOL-Library.Multiset"
    "HOL-Library.Char_ord"
    "HOL-Library.List_Lexorder"
begin

section \<open>Values shared by the whole client (src/src/sbv2.ts)\<close>

text \<open>
  A byte is an unsigned 8-bit word, so \<open><\<close> on bytes is the unsigned comparison.
  With the library's lexicographic list order the order on byte lists (\<open>Buffer\<close>
  contents) and, with its order of characters by code, the order on strings is the
  lexicographic one: the first differing element decides, a proper prefix is smaller.
\<close>

type_synonym byte = "8 word"

text \<open>
  A \<open>PublicKey\<close> of @solana/web3.js is an object: \<open>ref\<close> is its identity (what
  \<open>===\<close> and \<open>!==\<close> compare), \<open>toBuffer\<close> the key bytes it holds.
  \<open>toBytes()\<close> returns the same bytes.
\<close>

datatype PublicKey = PublicKey (ref: nat) (toBuffer: "byte list")

abbreviation toBytes :: "PublicKey \<Rightarrow> byte list" where
  "toBytes \<equiv> toBuffer"

text \<open>
  Of a \<open>Keypair\<close> a constructor reads the property \<open>publicKey\<close>, and on every
  path it reads it at most once: in the comparison when both parameters are given, in
  the last assignment when only the keypair is. \<open>keypair_publicKey\<close> is the object
  that one read yields. (The \<open>Keypair\<close> of @solana/web3.js computes the property and
  builds a new \<open>PublicKey\<close> on each read, so there it is never an object that the
  caller holds.)
\<close>

record Keypair =
  keypair_publicKey :: PublicKey
  keypair_secretKey :: "byte list"

text \<open>
  \<open>anchor.Program\<close>: of the program object the client reads \<open>programId\<close> and
  \<open>provider.wallet.publicKey\<close>; the account namespaces are the remote store, modelled
  further down.
\<close>

record Program =
  programId :: PublicKey
  provider_wallet :: PublicKey

text \<open>
  Everything the code throws. \<open>Error\<close> carries its message. \<open>TypeError\<close> is what
  the engine raises when a property of \<open>undefined\<close> or \<open>null\<close> is read (the wording
  of its message is the engine's). \<open>AccountDoesNotExist\<close> is the error of the library's
  \<open>fetch\<close>, which names the address it was asked for.
\<close>

datatype error =
  Error string
  | TypeError
  | AccountDoesNotExist "byte list"

text \<open>
  A value that may be missing: \<open>undefined\<close>, \<open>null\<close> or the value itself. The
  operators tell the first two apart: \<open>=== undefined\<close> holds of \<open>undefined\<close> only,
  while \<open>??\<close> and \<open>?.\<close> treat both as missing.
\<close>

datatype 'a optional = Undefined | Null | Defined 'a

text \<open>
  What the libraries and the build supply is a parameter:
  \<open>findProgramAddressSync\<close> of anchor (seeds and program id to a derived key and its
  bump, or an error), the outcome of \<open><\<close> between two \<open>toBytes()\<close> results (both are
  converted to strings first, in a way that depends on the version of web3.js), the
  constant \<open>spl.TOKEN_PROGRAM_ID\<close>, and the string that the static method
  \<open>AggregatorAccount.name\<close> converts to (its source text as compiled).
\<close>

record lib =
  findProgramAddressSync :: "byte list list \<Rightarrow> PublicKey \<Rightarrow> error + PublicKey \<times> nat"
  toBytes_less :: "byte list \<Rightarrow> byte list \<Rightarrow> bool"
  TOKEN_PROGRAM_ID :: PublicKey
  AggregatorAccount_name_text :: string

section \<open>SwitchboardDecimal\<close>

text \<open>
  \<open>mantissa\<close> is an \<open>anchor.BN\<close>, an arbitrary-precision integer; \<open>scale\<close> is the
  number of decimal places, an integer-valued \<open>number\<close>.
\<close>

record SwitchboardDecimal =
  mantissa :: int
  scale :: int

text \<open>\<open>this.mantissa.eq(other.mantissa) && this.scale === other.scale\<close>\<close>

definition eq :: "SwitchboardDecimal \<Rightarrow> SwitchboardDecimal \<Rightarrow> bool" where
  "eq this other \<longleftrightarrow> mantissa this = mantissa other \<and> scale this = scale other"

text \<open>
  \<open>toBig\<close>: \<open>new Big(`1e-${this.scale}`)\<close> is parsed from a string, which big.js
  rejects when the scale is negative (\<open>1e--2\<close>); the product of two \<open>Big\<close> values is
  exact, so the result is the rational number \<open>mantissa / 10^scale\<close>.
\<close>

definition toBig :: "SwitchboardDecimal \<Rightarrow> error + rat" where
  "toBig this =
     (if scale this < 0 then Inl (Error ''[big.js] Invalid number'')
      else Inr (of_int (mantissa this) * (1 / 10 ^ nat (scale this))))"

section \<open>Account wrappers\<close>

text \<open>
  \<open>AccountParams\<close>: \<open>publicKey?\<close> and \<open>keypair?\<close> may be left out. The last line
  of the constructor type-checks only without strict null checks, under which each may
  also be \<open>null\<close>.
\<close>

record AccountParams =
  params_program :: Program
  params_publicKey :: "PublicKey optional"
  params_keypair :: "Keypair optional"

text \<open>
  The eight wrapper classes have the same three fields and, line for line, the same
  constructor. The messages start with \<open>this.constructor.name\<close>. That is the name of
  the class, except in \<open>AggregatorAccount\<close>: the class declares a static method
  \<open>name\<close>, which takes the place of the class's own \<open>name\<close>, and the template
  converts the method to a string.
\<close>

datatype account_class =
  ProgramStateAccount | AggregatorAccount | JobAccount | PermissionAccount
  | OracleQueueAccount | LeaseAccount | CrankAccount | OracleAccount

fun constructor_name :: "lib \<Rightarrow> account_class \<Rightarrow> string" where
  "constructor_name L ProgramStateAccount = ''ProgramStateAccount''"
| "constructor_name L AggregatorAccount = AggregatorAccount_name_text L"
| "constructor_name L JobAccount = ''JobAccount''"
| "constructor_name L PermissionAccount = ''PermissionAccount''"
| "constructor_name L OracleQueueAccount = ''OracleQueueAccount''"
| "constructor_name L LeaseAccount = ''LeaseAccount''"
| "constructor_name L CrankAccount = ''CrankAccount''"
| "constructor_name L OracleAccount = ''OracleAccount''"

record account =
  account_class :: account_class
  program :: Program
  publicKey :: PublicKey
  keypair :: "Keypair optional"

text \<open>
  The constructor, statement by statement.
  \<^item> The first check throws when both parameters are \<open>=== undefined\<close>.
  \<^item> The second is entered when both are \<open>!== undefined\<close>, which \<open>null\<close> is too. It
    reads \<open>params.keypair.publicKey\<close>, a \<open>TypeError\<close> when the keypair is \<open>null\<close>,
    and compares with \<open>!==\<close>, that is by identity: \<open>null\<close> differs from every object,
    and two objects differ when their references do.
  \<^item> The last assignment, \<open>params.publicKey ?? this.keypair.publicKey\<close>, takes the
    public key unless it is \<open>undefined\<close> or \<open>null\<close>, and otherwise reads the property
    of the keypair, a \<open>TypeError\<close> when that is \<open>undefined\<close> or \<open>null\<close>.
\<close>

definition constructor :: "lib \<Rightarrow> account_class \<Rightarrow> AccountParams \<Rightarrow> error + account" where
  "constructor L c params =
     (if params_keypair params = Undefined \<and> params_publicKey params = Undefined then
        Inl (Error (constructor_name L c @
          '': User must provide either a publicKey or keypair for account use.''))
      else
        (case (if params_keypair params \<noteq> Undefined \<and> params_publicKey params \<noteq> Undefined
               then
                 (case params_keypair params of
                    Defined kp \<Rightarrow>
                      (if (case params_publicKey params of
                             Defined pk \<Rightarrow> ref pk \<noteq> ref (keypair_publicKey kp)
                           | _ \<Rightarrow> True)
                       then Some (Error (constructor_name L c @
                              '': provided pubkey and keypair mismatch.''))
                       else None)
                  | _ \<Rightarrow> Some TypeError)
               else None) of
           Some e \<Rightarrow> Inl e
         | None \<Rightarrow>
             (case params_publicKey params of
                Defined pk \<Rightarrow>
                  Inr \<lparr>account_class = c, program = params_program params, publicKey = pk,
                       keypair = params_keypair params\<rparr>
              | _ \<Rightarrow>
                  (case params_keypair params of
                     Defined kp \<Rightarrow>
                       Inr \<lparr>account_class = c, program = params_program params,
                            publicKey = keypair_publicKey kp,
                            keypair = params_keypair params\<rparr>
                   | _ \<Rightarrow> Inl TypeError))))"

section \<open>The JavaScript runtime under the crank selector\<close>

subsection \<open>Relational operators on BN objects\<close>

text \<open>
  \<open>anchor.BN\<close> is bn.js. A BN object has \<open>toString\<close> but neither \<open>valueOf\<close> nor
  \<open>Symbol.toPrimitive\<close>, so the operators \<open><\<close> and \<open><=\<close> convert both operands
  with \<open>toString()\<close> and compare the two decimal strings code unit by code unit.
  \<open>decimal\<close> is the digit string of a natural number, \<open>BN_toString\<close> adds the sign.
\<close>

function decimal :: "nat \<Rightarrow> string" where
  "decimal n =
     (if n < 10 then [''0123456789'' ! n]
      else decimal (n div 10) @ [''0123456789'' ! (n mod 10)])"
  by pat_completeness auto
termination
  by (relation "measure id") auto

definition BN_toString :: "int \<Rightarrow> string" where
  "BN_toString x = (if x < 0 then CHR ''-'' # decimal (nat (- x)) else decimal (nat x))"

definition BN_less :: "int \<Rightarrow> int \<Rightarrow> bool" where
  "BN_less a b \<longleftrightarrow> BN_toString a < BN_toString b"

definition BN_less_eq :: "int \<Rightarrow> int \<Rightarrow> bool" where
  "BN_less_eq a b \<longleftrightarrow> \<not> BN_toString b < BN_toString a"

subsection \<open>Array.prototype.slice and Buffer.compare\<close>

text \<open>
  \<open>xs.slice(0, e)\<close>: a negative end counts from the end of the array, and the result
  is clamped to the array.
\<close>

definition slice0 :: "int \<Rightarrow> 'a list \<Rightarrow> 'a list" where
  "slice0 e xs = (if e < 0 then take (nat (int (length xs) + e)) xs else take (nat e) xs)"

text \<open>\<open>a.compare(b)\<close> on two Buffers: \<open>-1\<close>, \<open>0\<close> or \<open>1\<close> by unsigned bytes.\<close>

fun Buffer_compare :: "byte list \<Rightarrow> byte list \<Rightarrow> int" where
  "Buffer_compare [] [] = 0"
| "Buffer_compare [] (y # ys) = - 1"
| "Buffer_compare (x # xs) [] = 1"
| "Buffer_compare (x # xs) (y # ys) =
     (if x < y then - 1 else if y < x then 1 else Buffer_compare xs ys)"

text \<open>\<open>Buffer.from(s)\<close> of an ASCII string: one byte per character.\<close>

definition Buffer_from :: "string \<Rightarrow> byte list" where
  "Buffer_from s = map of_char s"

subsection \<open>Array.prototype.sort\<close>

text \<open>
  The package runs on Node.js, whose engine sorts with TimSort
  (V8, third_party/v8/builtins/array-sort.tq). A comparator is called through
  \<open>ToNumber\<close>, so a comparator that returns a boolean yields \<open>1\<close> for \<open>true\<close> and
  \<open>0\<close> for \<open>false\<close>; the algorithm only ever asks whether the result is negative.

  \<open>CountAndMakeRun\<close> measures the run the array starts with: strictly descending when
  the second element compares below the first (the run is then reversed in place),
  non-descending otherwise. \<open>BinaryInsertionSort\<close> inserts every element after the run
  into the sorted front, at the place a binary search finds. An array shorter than 64
  elements is sorted by exactly these two steps; a longer one is cut into several runs
  that are merged, with the same result whenever the comparator is consistent, and with
  no merge at all when the first run is the whole array.
\<close>

type_synonym 'a comparefn = "'a \<Rightarrow> 'a \<Rightarrow> int"

fun run_ascending :: "'a comparefn \<Rightarrow> 'a \<Rightarrow> 'a list \<Rightarrow> nat" where
  "run_ascending cmp previous [] = 0"
| "run_ascending cmp previous (x # xs) =
     (if cmp x previous < 0 then 0 else Suc (run_ascending cmp x xs))"

fun run_descending :: "'a comparefn \<Rightarrow> 'a \<Rightarrow> 'a list \<Rightarrow> nat" where
  "run_descending cmp previous [] = 0"
| "run_descending cmp previous (x # xs) =
     (if cmp x previous \<ge> 0 then 0 else Suc (run_descending cmp x xs))"

definition CountAndMakeRun :: "'a comparefn \<Rightarrow> 'a list \<Rightarrow> 'a list \<times> nat" where
  "CountAndMakeRun cmp xs =
     (case xs of
        x0 # x1 # rest \<Rightarrow>
          if cmp x1 x0 < 0 then
            (let n = 2 + run_descending cmp x1 rest in (rev (take n xs) @ drop n xs, n))
          else (xs, 2 + run_ascending cmp x1 rest)
      | _ \<Rightarrow> (xs, length xs))"

function binary_search :: "'a comparefn \<Rightarrow> 'a \<Rightarrow> 'a list \<Rightarrow> nat \<Rightarrow> nat \<Rightarrow> nat" where
  "binary_search cmp pivot xs left right =
     (if left < right then
        (let mid = left + (right - left) div 2
         in if cmp pivot (xs ! mid) < 0 then binary_search cmp pivot xs left mid
            else binary_search cmp pivot xs (mid + 1) right)
      else left)"
  by pat_completeness auto
termination
  by (relation "measure (\<lambda>(cmp, pivot, xs, left, right). right - left)") auto

function BinaryInsertionSort :: "'a comparefn \<Rightarrow> 'a list \<Rightarrow> nat \<Rightarrow> 'a list" where
  "BinaryInsertionSort cmp xs start =
     (if start < length xs then
        (let front = take start xs;
             pivot = xs ! start;
             left = binary_search cmp pivot front 0 start
         in BinaryInsertionSort cmp
              (take left front @ pivot # drop left front @ drop (Suc start) xs) (Suc start))
      else xs)"
  by pat_completeness auto
termination
  by (relation "measure (\<lambda>(cmp, xs, start). length xs - start)") auto

declare decimal.simps [simp del] binary_search.simps [simp del]
  BinaryInsertionSort.simps [simp del]

definition Array_sort :: "'a comparefn \<Rightarrow> 'a list \<Rightarrow> 'a list" where
  "Array_sort cmp xs =
     (if length xs < 2 then xs
      else (case CountAndMakeRun cmp xs of (ys, n) \<Rightarrow> BinaryInsertionSort cmp ys n))"

section \<open>The remote store and the clock\<close>

text \<open>
  \<open>CrankRow\<close> as declared; the fields of the decoded crank and lease accounts that
  the client reads. \<open>pqSize\<close> is an unsigned counter.
\<close>

record CrankRow =
  pubkey :: PublicKey
  nextTimestamp :: int

record CrankAccountData =
  pqData :: "CrankRow list"
  pqSize :: nat
  queuePubkey :: PublicKey

record LeaseAccountData =
  escrow :: PublicKey

text \<open>
  What the code reads from outside itself: \<open>Date.now()\<close>, in milliseconds, and the
  accounts that \<open>program.account.crankAccountData.fetch\<close> and
  \<open>program.account.leaseAccountData.fetch\<close> find, keyed by the address bytes.
\<close>

record world =
  Date_now :: int
  crankAccountData :: "byte list \<rightharpoonup> CrankAccountData"
  leaseAccountData :: "byte list \<rightharpoonup> LeaseAccountData"

text \<open>
  \<open>fetch\<close> of an account namespace throws \<open>Account does not exist <address>\<close> when
  the store has no account at the address it is given. \<open>loadData\<close> calls it on
  \<open>this.publicKey\<close> and has no handler, so the error leaves \<open>loadData\<close> unchanged.
  (\<open>ebuf\<close>, which \<open>loadData\<close> clears, is not among the fields kept here.)
\<close>

definition fetch :: "(byte list \<rightharpoonup> 'a) \<Rightarrow> PublicKey \<Rightarrow> error + 'a" where
  "fetch store address =
     (case store (toBuffer address) of
        None \<Rightarrow> Inl (AccountDoesNotExist (toBuffer address))
      | Some data \<Rightarrow> Inr data)"

definition CrankAccount_loadData :: "world \<Rightarrow> account \<Rightarrow> error + CrankAccountData" where
  "CrankAccount_loadData w this = fetch (crankAccountData w) (publicKey this)"

definition LeaseAccount_loadData :: "world \<Rightarrow> account \<Rightarrow> error + LeaseAccountData" where
  "LeaseAccount_loadData w this = fetch (leaseAccountData w) (publicKey this)"

section \<open>Program-derived accounts\<close>

text \<open>\<open>ProgramStateAccount.fromSeed(program)\<close>\<close>

definition ProgramStateAccount_fromSeed :: "lib \<Rightarrow> Program \<Rightarrow> error + account \<times> nat" where
  "ProgramStateAccount_fromSeed L prog =
     (case findProgramAddressSync L [Buffer_from ''SB_STATE_V1''] (programId prog) of
        Inl e \<Rightarrow> Inl e
      | Inr (statePubkey, stateBump) \<Rightarrow>
          (case constructor L ProgramStateAccount
                  \<lparr>params_program = prog, params_publicKey = Defined statePubkey,
                   params_keypair = Undefined\<rparr> of
             Inl e \<Rightarrow> Inl e
           | Inr a \<Rightarrow> Inr (a, stateBump)))"

text \<open>\<open>LeaseAccount.fromSeed(program, leaser, target)\<close>\<close>

definition LeaseAccount_fromSeed ::
  "lib \<Rightarrow> Program \<Rightarrow> PublicKey \<Rightarrow> PublicKey \<Rightarrow> error + account \<times> nat" where
  "LeaseAccount_fromSeed L prog leaser target =
     (case findProgramAddressSync L
             [Buffer_from ''lease_account'', toBytes leaser, toBytes target] (programId prog) of
        Inl e \<Rightarrow> Inl e
      | Inr (pubkey', bump) \<Rightarrow>
          (case constructor L LeaseAccount
                  \<lparr>params_program = prog, params_publicKey = Defined pubkey',
                   params_keypair = Undefined\<rparr> of
             Inl e \<Rightarrow> Inl e
           | Inr a \<Rightarrow> Inr (a, bump)))"

section \<open>CrankAccount: peakReady and pop\<close>

text \<open>
  \<open>peakReady(n)\<close>. The method takes the limit only: it loads the crank and reads the
  clock itself. The chain is the source's: slice to \<open>pqSize\<close>, filter with \<open><=\<close> on BN
  objects, sort with a comparator that returns the boolean \<open>a.nextTimestamp <
  b.nextTimestamp\<close>, slice to \<open>n\<close>, sort with a comparator that returns the boolean
  \<open>a.pubkey.toBytes() < b.pubkey.toBytes()\<close>, map to the keys.
\<close>

definition peakReady :: "lib \<Rightarrow> world \<Rightarrow> account \<Rightarrow> int \<Rightarrow> error + PublicKey list" where
  "peakReady L w this n =
     (case CrankAccount_loadData w this of
        Inl e \<Rightarrow> Inl e
      | Inr crank \<Rightarrow>
          (let now = Date_now w;
               items =
                 map pubkey
                   (Array_sort
                      (\<lambda>a b. of_bool (toBytes_less L (toBytes (pubkey a)) (toBytes (pubkey b))))
                      (slice0 n
                         (Array_sort
                            (\<lambda>a b. of_bool (BN_less (nextTimestamp a) (nextTimestamp b)))
                            (filter (\<lambda>item. BN_less_eq (nextTimestamp item) (now div 1000))
                               (slice0 (int (pqSize crank)) (pqData crank))))))
           in Inr items))"

text \<open>
  The body of the loop of \<open>pop\<close> for one \<open>feedKey\<close>: the (unused) aggregator wrapper,
  the lease account derived from \<open>(feedKey, crank.queuePubkey)\<close>, its data, and the two
  keys that are pushed. Any of the three steps may throw.
\<close>

definition pop_step ::
  "lib \<Rightarrow> world \<Rightarrow> Program \<Rightarrow> PublicKey \<Rightarrow> PublicKey \<Rightarrow> error + PublicKey \<times> PublicKey" where
  "pop_step L w prog queue feedKey =
     (case constructor L AggregatorAccount
             \<lparr>params_program = prog, params_publicKey = Defined feedKey,
              params_keypair = Undefined\<rparr> of
        Inl e \<Rightarrow> Inl e
      | Inr aggregatorAccount \<Rightarrow>
          (case LeaseAccount_fromSeed L prog feedKey queue of
             Inl e \<Rightarrow> Inl e
           | Inr (leaseAccount, leaseBump) \<Rightarrow>
               (case LeaseAccount_loadData w leaseAccount of
                  Inl e \<Rightarrow> Inl e
                | Inr lease \<Rightarrow> Inr (publicKey leaseAccount, escrow lease))))"

text \<open>
  The loop: \<open>remainingAccounts\<close> grows by two keys per feed key; the first error ends
  the loop and the method.
\<close>

fun pop_loop ::
  "lib \<Rightarrow> world \<Rightarrow> Program \<Rightarrow> PublicKey \<Rightarrow> PublicKey list \<Rightarrow> PublicKey list
   \<Rightarrow> error + PublicKey list" where
  "pop_loop L w prog queue [] remainingAccounts = Inr remainingAccounts"
| "pop_loop L w prog queue (feedKey # rest) remainingAccounts =
     (case pop_step L w prog queue feedKey of
        Inl e \<Rightarrow> Inl e
      | Inr (leaseKey, escrowKey) \<Rightarrow>
          pop_loop L w prog queue rest (remainingAccounts @ [leaseKey, escrowKey]))"

record CrankPopParams =
  payoutWallet :: PublicKey

record AccountMeta =
  isSigner :: bool
  isWritable :: bool
  meta_pubkey :: PublicKey

text \<open>
  What \<open>pop\<close> hands to \<open>program.rpc.crankPop\<close>: the argument, the named accounts and
  the remaining accounts. The remote call itself is outside the client.
\<close>

record crankPop_call =
  arg_stateBump :: nat
  accounts_crank :: PublicKey
  accounts_oracleQueue :: PublicKey
  accounts_programState :: PublicKey
  accounts_payoutWallet :: PublicKey
  accounts_tokenProgram :: PublicKey
  remainingAccounts :: "AccountMeta list"

definition pop :: "lib \<Rightarrow> world \<Rightarrow> account \<Rightarrow> CrankPopParams \<Rightarrow> error + crankPop_call" where
  "pop L w this params =
     (case CrankAccount_loadData w this of
        Inl e \<Rightarrow> Inl e
      | Inr crank \<Rightarrow>
          (case peakReady L w this 10 of
             Inl e \<Rightarrow> Inl e
           | Inr peakAggKeys \<Rightarrow>
               (case pop_loop L w (program this) (queuePubkey crank) peakAggKeys peakAggKeys of
                  Inl e \<Rightarrow> Inl e
                | Inr pushed \<Rightarrow>
                    (let sorted_accounts =
                           Array_sort (\<lambda>a b. Buffer_compare (toBuffer a) (toBuffer b)) pushed
                     in case ProgramStateAccount_fromSeed L (program this) of
                          Inl e \<Rightarrow> Inl e
                        | Inr (programStateAccount, stateBump) \<Rightarrow>
                            Inr \<lparr>arg_stateBump = stateBump,
                                 accounts_crank = publicKey this,
                                 accounts_oracleQueue = queuePubkey crank,
                                 accounts_programState = publicKey programStateAccount,
                                 accounts_payoutWallet = payoutWallet params,
                                 accounts_tokenProgram = TOKEN_PROGRAM_ID L,
                                 remainingAccounts =
                                   map (\<lambda>pubkey'. \<lparr>isSigner = False, isWritable = True,
                                                     meta_pubkey = pubkey'\<rparr>)
                                     sorted_accounts\<rparr>))))"

section \<open>AggregatorAccount: getLatestValue\<close>

text \<open>
  Of the decoded aggregator the method reads \<open>latestConfirmedRound\<close>, its
  \<open>numSuccess\<close> (a number) and its \<open>result\<close>, whose \<open>mantissa\<close> and \<open>scale\<close> it
  both reads with \<open>toNumber()\<close>, that is as BN objects.
\<close>

record RoundResult =
  result_mantissa :: int
  result_scale :: int

record AggregatorRound =
  numSuccess :: "int optional"
  result :: RoundResult

record AggregatorAccountData =
  latestConfirmedRound :: "AggregatorRound optional"

text \<open>
  \<open>BN.toNumber()\<close> gives the integer as a number when its magnitude is below \<open>2^53\<close>
  and fails an assertion otherwise.
\<close>

definition BN_toNumber :: "int \<Rightarrow> error + int" where
  "BN_toNumber x =
     (if \<bar>x\<bar> < 2 ^ 53 then Inr x
      else Inl (Error ''Number can only safely store up to 53 bits''))"

text \<open>
  The two operations on numbers that the method uses, the division \<open>/\<close> and
  \<open>Math.pow\<close>, are parameters; \<open>'n\<close> is the type of their results. The dividend and
  the arguments of \<open>Math.pow\<close> are integers here: \<open>toNumber()\<close> results and the
  literal 10.
\<close>

record 'n Number_ops =
  Number_divide :: "int \<Rightarrow> 'n \<Rightarrow> 'n"
  Math_pow :: "int \<Rightarrow> int \<Rightarrow> 'n"

text \<open>
  \<open>loadData\<close> of an aggregator account fetches from
  \<open>program.account.aggregatorAccountData\<close>, the store passed here.
\<close>

definition AggregatorAccount_loadData ::
  "(byte list \<rightharpoonup> AggregatorAccountData) \<Rightarrow> account \<Rightarrow> error + AggregatorAccountData" where
  "AggregatorAccount_loadData store this = fetch store (publicKey this)"

text \<open>\<open>aggregator.latestConfirmedRound?.numSuccess ?? 0\<close>\<close>

definition numSuccess_or_0 :: "AggregatorAccountData \<Rightarrow> int" where
  "numSuccess_or_0 aggregator =
     (case latestConfirmedRound aggregator of
        Defined r \<Rightarrow> (case numSuccess r of Defined k \<Rightarrow> k | _ \<Rightarrow> 0)
      | _ \<Rightarrow> 0)"

text \<open>
  \<open>getLatestValue(aggregator?)\<close>: the aggregator passed, or else the loaded one; the
  error when it holds no value; otherwise the two \<open>toNumber()\<close> calls, mantissa first,
  and the quotient. (After the check \<open>latestConfirmedRound\<close> is an object; the last
  branch is the property read that would fail otherwise.)
\<close>

definition getLatestValue ::
  "'n Number_ops \<Rightarrow> (byte list \<rightharpoonup> AggregatorAccountData) \<Rightarrow> account
   \<Rightarrow> AggregatorAccountData optional \<Rightarrow> error + 'n" where
  "getLatestValue N store this aggregator =
     (case (case aggregator of
              Defined a \<Rightarrow> Inr a
            | _ \<Rightarrow> AggregatorAccount_loadData store this) of
        Inl e \<Rightarrow> Inl e
      | Inr a \<Rightarrow>
          if numSuccess_or_0 a = 0 then Inl (Error ''Aggregator currently holds no value.'')
          else
            (case latestConfirmedRound a of
               Defined r \<Rightarrow>
                 (case BN_toNumber (result_mantissa (result r)) of
                    Inl e \<Rightarrow> Inl e
                  | Inr mantissa' \<Rightarrow>
                      (case BN_toNumber (result_scale (result r)) of
                         Inl e \<Rightarrow> Inl e
                       | Inr scale' \<Rightarrow>
                           Inr (Number_divide N mantissa' (Math_pow N 10 scale'))))
             | _ \<Rightarrow> Inl TypeError))"

section \<open>Concrete accounts for the examples\<close>

text \<open>
  Keys of 32 bytes, all bytes equal, named after the entries of the crank scenarios;
  \<open>crank_account\<close> is a \<open>CrankAccount\<close> wrapper as the constructor builds it from a
  public key.
\<close>

definition addr :: "byte \<Rightarrow> byte list" where
  "addr b = replicate 32 b"

definition key_A :: PublicKey where "key_A = PublicKey 1 (addr 1)"
definition key_B :: PublicKey where "key_B = PublicKey 2 (addr 2)"
definition key_C :: PublicKey where "key_C = PublicKey 3 (addr 3)"
definition crank_key :: PublicKey where "crank_key = PublicKey 4 (addr 4)"
definition queue_key :: PublicKey where "queue_key = PublicKey 5 (addr 5)"
definition escrow_A :: PublicKey where "escrow_A = PublicKey 6 (addr 60)"
definition escrow_B :: PublicKey where "escrow_B = PublicKey 7 (addr 50)"

definition example_program :: Program where
  "example_program = \<lparr>programId = PublicKey 8 (addr 8), provider_wallet = PublicKey 9 (addr 9)\<rparr>"

definition crank_account :: account where
  "crank_account =
     \<lparr>account_class = CrankAccount, program = example_program, publicKey = crank_key,
      keypair = Undefined\<rparr>"

text \<open>
  A stand-in for the libraries: the lease address of a feed key is the key with 100
  added to every byte, the state address is all zeros, and \<open><\<close> on key bytes is the
  lexicographic order (which is what the string conversion amounts to on bytes below
  128). The text of the static method is the one in the compiled \<open>dist/sbv2.js\<close>.
\<close>

definition example_lib :: lib where
  "example_lib =
     \<lparr>findProgramAddressSync =
        (\<lambda>seeds pid.
           case seeds of
             [tag, leaser, target] \<Rightarrow> Inr (PublicKey 0 (map (\<lambda>b. b + 100) leaser), 255)
           | _ \<Rightarrow> Inr (PublicKey 0 (addr 0), 254)),
      toBytes_less = (\<lambda>a b. a < b),
      TOKEN_PROGRAM_ID = PublicKey 10 (addr 10),
      AggregatorAccount_name_text =
        ''name(aggregator) {'' @ [CHR 0x0A]
        @ ''        return aggregator.id.toString('' @ [CHR 0x22] @ ''utf8'' @ [CHR 0x22] @ '');''
        @ [CHR 0x0A] @ ''    }''\<rparr>"

definition row :: "PublicKey \<Rightarrow> int \<Rightarrow> CrankRow" where
  "row k t = \<lparr>pubkey = k, nextTimestamp = t\<rparr>"

definition crank_of :: "CrankRow list \<Rightarrow> CrankAccountData" where
  "crank_of rows = \<lparr>pqData = rows, pqSize = length rows, queuePubkey = queue_key\<rparr>"

definition world_of ::
  "int \<Rightarrow> CrankRow list \<Rightarrow> (byte list \<rightharpoonup> LeaseAccountData) \<Rightarrow> world" where
  "world_of t rows leases =
     \<lparr>Date_now = t, crankAccountData = [toBuffer crank_key \<mapsto> crank_of rows],
      leaseAccountData = leases\<rparr>"

text \<open>
  Two entries that are both due at the clock readings used below, stored with the larger
  key first; lease stores for both feeds and for \<open>key_B\<close> only; and the call that
  \<open>pop\<close> builds when both leases are there.
\<close>

definition example_rows :: "CrankRow list" where
  "example_rows = [row key_B 1600000000, row key_A 1600000001]"

definition both_leases :: "byte list \<rightharpoonup> LeaseAccountData" where
  "both_leases = [addr 101 \<mapsto> \<lparr>escrow = escrow_A\<rparr>, addr 102 \<mapsto> \<lparr>escrow = escrow_B\<rparr>]"

definition only_B_lease :: "byte list \<rightharpoonup> LeaseAccountData" where
  "only_B_lease = [addr 102 \<mapsto> \<lparr>escrow = escrow_B\<rparr>]"


text \<open>
  For \<open>getLatestValue\<close>: an aggregator wrapper, a stand-in for the operations on
  numbers (exact rational arithmetic, where the real ones round to doubles), and
  aggregators with one successful round.
\<close>

definition feed_account :: account where
  "feed_account =
     \<lparr>account_class = AggregatorAccount, program = example_program, publicKey = key_A,
      keypair = Undefined\<rparr>"

definition example_Number :: "rat Number_ops" where
  "example_Number =
     \<lparr>Number_divide = (\<lambda>m d. of_int m / d),
      Math_pow = (\<lambda>b e. if 0 \<le> e then of_int b ^ nat e else 1 / of_int b ^ nat (- e))\<rparr>"

definition aggregator_with :: "int \<Rightarrow> int \<Rightarrow> AggregatorAccountData" where
  "aggregator_with m s =
     \<lparr>latestConfirmedRound =
        Defined \<lparr>numSuccess = Defined 1,
                 result = \<lparr>result_mantissa = m, result_scale = s\<rparr>\<rparr>\<rparr>"

section \<open>Properties of SwitchboardDecimal\<close>

text \<open>
  C8. \<open>eq\<close> is the structural comparison: it holds exactly when the mantissas are equal
  and the scales are equal. It is reflexive, symmetric and transitive, and it tells
  mantissa 10, scale 2 from mantissa 1, scale 1, although \<open>toBig\<close> gives both the same
  number.
\<close>

theorem eq_structural_equivalence:
  "(eq a b \<longleftrightarrow> mantissa a = mantissa b \<and> scale a = scale b)
   \<and> eq a a
   \<and> (eq a b \<longleftrightarrow> eq b a)
   \<and> (eq a b \<and> eq b c \<longrightarrow> eq a c)
   \<and> \<not> eq \<lparr>mantissa = 10, scale = 2\<rparr> \<lparr>mantissa = 1, scale = 1\<rparr>
   \<and> toBig \<lparr>mantissa = 10, scale = 2\<rparr> = toBig \<lparr>mantissa = 1, scale = 1\<rparr>"
  by (auto simp add: eq_def toBig_def)

theorem eq_structural_equivalence_witness:
  "eq \<lparr>mantissa = 7, scale = 3\<rparr> \<lparr>mantissa = 7, scale = 3\<rparr>
   \<and> eq \<lparr>mantissa = 7, scale = 3\<rparr> \<lparr>mantissa = 5 + 2, scale = 3\<rparr>
   \<and> \<not> eq \<lparr>mantissa = 10, scale = 2\<rparr> \<lparr>mantissa = 1, scale = 1\<rparr>"
  using eq_structural_equivalence
    [of "\<lparr>mantissa = 7, scale = 3\<rparr>" "\<lparr>mantissa = 7, scale = 3\<rparr>"
        "\<lparr>mantissa = 5 + 2, scale = 3\<rparr>"]
  by (simp add: eq_def)

section \<open>Properties of the sort\<close>

text \<open>
  The sort always returns a permutation of its input. It returns the input unchanged
  when the comparator is never negative, and it sorts by a key when the comparator is
  negative exactly where the key is smaller.
\<close>

lemma BinaryInsertionSort_length: "length (BinaryInsertionSort cmp xs start) = length xs"
proof (induction cmp xs start rule: BinaryInsertionSort.induct)
  case (1 cmp xs start)
  show ?case
  proof (cases "start < length xs")
    case True
    then show ?thesis
      using "1.IH"[OF True refl refl refl]
      by (subst BinaryInsertionSort.simps) (simp add: Let_def)
  next
    case False
    then show ?thesis by (subst BinaryInsertionSort.simps) simp
  qed
qed





lemma run_ascending_never_negative:
  "\<forall>a b. \<not> cmp a b < 0 \<Longrightarrow> run_ascending cmp p xs = length xs"
  by (induction xs arbitrary: p) auto

lemma Array_sort_never_negative:
  assumes "\<forall>a b. \<not> cmp a b < 0"
  shows "Array_sort cmp xs = xs"
proof (cases xs)
  case Nil
  then show ?thesis by (simp add: Array_sort_def)
next
  case (Cons x0 tl)
  show ?thesis
  proof (cases tl)
    case Nil
    with Cons show ?thesis by (simp add: Array_sort_def)
  next
    case (Cons x1 rest)
    have run: "CountAndMakeRun cmp xs = (xs, length xs)"
      using assms \<open>xs = x0 # tl\<close> Cons
      by (simp add: CountAndMakeRun_def run_ascending_never_negative)
    have "BinaryInsertionSort cmp xs (length xs) = xs"
      by (subst BinaryInsertionSort.simps) simp
    with run show ?thesis by (simp add: Array_sort_def)
  qed
qed













section \<open>Evaluating the examples\<close>

lemma addr_eq [simp]: "addr a = addr b \<longleftrightarrow> a = b"
  by (simp add: addr_def)

lemma addr_less [simp]: "addr a < addr b \<longleftrightarrow> a < b"
proof -
  have "\<And>n. replicate (Suc n) a < replicate (Suc n) b \<longleftrightarrow> a < b"
  proof -
    fix n show "replicate (Suc n) a < replicate (Suc n) b \<longleftrightarrow> a < b"
      by (induction n) auto
  qed
  from this[of 31] show ?thesis by (simp add: addr_def)
qed

lemma addr_le [simp]: "addr a \<le> addr b \<longleftrightarrow> a \<le> b"
  by (auto simp add: le_less)

lemma map_addr [simp]: "map f (addr b) = addr (f b)"
  by (simp add: addr_def)

lemma Buffer_compare_replicate:
  "Buffer_compare (replicate n a) (replicate n b) =
     (if n = 0 then 0 else if a < b then - 1 else if b < a then 1 else 0)"
  by (induction n) auto

lemma Buffer_compare_addr [simp]:
  "Buffer_compare (addr a) (addr b) = (if a < b then - 1 else if b < a then 1 else 0)"
  by (simp add: addr_def Buffer_compare_replicate)

lemma world_of_fields [simp]:
  "Date_now (world_of t rows leases) = t"
  "leaseAccountData (world_of t rows leases) = leases"
  by (simp_all add: world_of_def)

lemma crank_account_fields [simp]:
  "program crank_account = example_program" "publicKey crank_account = crank_key"
  by (simp_all add: crank_account_def)

lemma crank_of_queue [simp]: "queuePubkey (crank_of rows) = queue_key"
  by (simp add: crank_of_def)

lemma example_token [simp]: "TOKEN_PROGRAM_ID example_lib = PublicKey 10 (addr 10)"
  by (simp add: example_lib_def)

lemma load_crank [simp]:
  "CrankAccount_loadData (world_of t rows leases) crank_account = Inr (crank_of rows)"
  by (simp add: CrankAccount_loadData_def fetch_def world_of_def crank_account_def)

text \<open>
  Both comparators of \<open>peakReady\<close> return a boolean, which is never negative: neither
  sort moves anything, and the method is slice, filter, slice, map.
\<close>

lemma peakReady_chain:
  "peakReady L w this n =
     (case CrankAccount_loadData w this of
        Inl e \<Rightarrow> Inl e
      | Inr crank \<Rightarrow>
          Inr (map pubkey
                 (slice0 n
                    (filter (\<lambda>item. BN_less_eq (nextTimestamp item) (Date_now w div 1000))
                       (slice0 (int (pqSize crank)) (pqData crank))))))"
  by (simp add: peakReady_def Array_sort_never_negative split: sum.splits)

lemma BN_less_eq_examples:
  "BN_less_eq 100 150" "\<not> BN_less_eq 90 150" "\<not> BN_less_eq 200 150"
  "BN_less_eq 1100 1150" "BN_less_eq 1090 1150" "\<not> BN_less_eq 1200 1150"
  "\<not> BN_less_eq 5 1700000000" "BN_less_eq 10000000000 1700000000"
  "BN_less_eq 1600000000 1700000000" "BN_less_eq 1600000001 1700000000"
  "\<not> BN_less_eq 1600000000 1599999999" "\<not> BN_less_eq 1600000001 1599999999"
  by (simp_all add: BN_less_eq_def BN_toString_def decimal.simps)

lemmas eval_crank = peakReady_chain crank_of_def slice0_def row_def BN_less_eq_examples

lemma example_keys:
  "peakReady example_lib (world_of 1700000000000 example_rows leases) crank_account 10
     = Inr [key_B, key_A]"
  by (simp add: eval_crank example_rows_def)

lemma example_derive:
  "LeaseAccount_fromSeed example_lib example_program (PublicKey r (addr b)) queue_key
     = Inr (\<lparr>account_class = LeaseAccount, program = example_program,
             publicKey = PublicKey 0 (addr (b + 100)), keypair = Undefined\<rparr>, 255)"
  by (simp add: LeaseAccount_fromSeed_def example_lib_def constructor_def queue_key_def)

lemma example_state:
  "ProgramStateAccount_fromSeed example_lib example_program
     = Inr (\<lparr>account_class = ProgramStateAccount, program = example_program,
             publicKey = PublicKey 0 (addr 0), keypair = Undefined\<rparr>, 254)"
  by (simp add: ProgramStateAccount_fromSeed_def example_lib_def constructor_def)



section \<open>Properties of the account wrappers and of address derivation\<close>

lemma constructor_null:
  "params_keypair params = Null \<Longrightarrow> constructor L c params = Inl TypeError"
  "params_publicKey params = Null \<Longrightarrow> params_keypair params = Undefined \<Longrightarrow>
     constructor L c params = Inl TypeError"
  "params_publicKey params = Null \<Longrightarrow> params_keypair params = Defined kp \<Longrightarrow>
     constructor L c params
       = Inl (Error (constructor_name L c @ '': provided pubkey and keypair mismatch.''))"
  by (cases "params_publicKey params"; simp add: constructor_def)+

text \<open>
  C9. The claim is that a constructor throws exactly when neither a public key nor a
  keypair is supplied, or both are and the key is not the keypair's own object. A
  \<open>null\<close> breaks it, whichever way \<open>null\<close> is counted. With \<open>publicKey: null\<close> and no
  keypair the parameters are not both \<open>undefined\<close> and not both given, yet the
  constructor throws, a \<open>TypeError\<close>. With \<open>publicKey: null\<close> and a keypair only the
  keypair is an object, yet the constructor throws the mismatch error.
\<close>

theorem constructor_null_counterexample:
  "constructor example_lib CrankAccount
     \<lparr>params_program = example_program, params_publicKey = Null,
      params_keypair = Undefined\<rparr> = Inl TypeError
   \<and> constructor example_lib CrankAccount
       \<lparr>params_program = example_program, params_publicKey = Null,
        params_keypair = Defined \<lparr>keypair_publicKey = key_A, keypair_secretKey = []\<rparr>\<rparr>
     = Inl (Error ''CrankAccount: provided pubkey and keypair mismatch.'')"
  by (simp add: constructor_def)

text \<open>
  C9, as the code has it. When neither parameter is \<open>null\<close>, each of the eight
  constructors throws exactly when both are \<open>undefined\<close>, or both are objects and the
  public key is not the very object that \<open>keypair.publicKey\<close> yields. A distinct object
  with the same bytes is rejected with the mismatch error. After a successful
  construction the \<open>publicKey\<close> field holds an object: the supplied key or, when none
  was supplied, the keypair's.
\<close>

theorem constructor_throws_iff:
  "(params_publicKey params \<noteq> Null \<and> params_keypair params \<noteq> Null \<longrightarrow>
      ((\<exists>e. constructor L c params = Inl e) \<longleftrightarrow>
         (params_publicKey params = Undefined \<and> params_keypair params = Undefined)
         \<or> (\<exists>pk kp. params_publicKey params = Defined pk \<and> params_keypair params = Defined kp
               \<and> ref pk \<noteq> ref (keypair_publicKey kp))))
   \<and> (\<forall>pk kp. params_publicKey params = Defined pk \<and> params_keypair params = Defined kp
         \<and> toBuffer pk = toBuffer (keypair_publicKey kp)
         \<and> ref pk \<noteq> ref (keypair_publicKey kp)
         \<longrightarrow> constructor L c params
               = Inl (Error (constructor_name L c @ '': provided pubkey and keypair mismatch.'')))
   \<and> (\<forall>a. constructor L c params = Inr a \<longrightarrow>
         params_publicKey params = Defined (publicKey a)
         \<or> (params_publicKey params = Undefined
            \<and> (\<exists>kp. params_keypair params = Defined kp \<and> publicKey a = keypair_publicKey kp)))"
  by (cases "params_publicKey params"; cases "params_keypair params")
     (auto simp add: constructor_def)

theorem constructor_throws_iff_witness:
  "constructor example_lib AggregatorAccount
     \<lparr>params_program = example_program, params_publicKey = Defined (PublicKey 1 (addr 1)),
      params_keypair =
        Defined \<lparr>keypair_publicKey = PublicKey 2 (addr 1), keypair_secretKey = []\<rparr>\<rparr>
     = Inl (Error (AggregatorAccount_name_text example_lib @ '': provided pubkey and keypair mismatch.''))
   \<and> (\<exists>a. constructor example_lib CrankAccount
          \<lparr>params_program = example_program, params_publicKey = Undefined,
           params_keypair = Defined \<lparr>keypair_publicKey = key_A, keypair_secretKey = []\<rparr>\<rparr>
          = Inr a
        \<and> publicKey a = key_A)"
proof -
  let ?p1 = "\<lparr>params_program = example_program,
      params_publicKey = Defined (PublicKey 1 (addr 1)),
      params_keypair =
        Defined \<lparr>keypair_publicKey = PublicKey 2 (addr 1), keypair_secretKey = []\<rparr>\<rparr>"
  let ?p2 = "\<lparr>params_program = example_program, params_publicKey = Undefined,
      params_keypair = Defined \<lparr>keypair_publicKey = key_A, keypair_secretKey = []\<rparr>\<rparr>"
  have one: "constructor example_lib AggregatorAccount ?p1
      = Inl (Error (AggregatorAccount_name_text example_lib @ '': provided pubkey and keypair mismatch.''))"
    using constructor_throws_iff[of ?p1 example_lib AggregatorAccount] by simp
  have "\<not> (\<exists>e. constructor example_lib CrankAccount ?p2 = Inl e)"
    using constructor_throws_iff[of ?p2 example_lib CrankAccount] by simp
  then obtain a where a: "constructor example_lib CrankAccount ?p2 = Inr a"
    by (cases "constructor example_lib CrankAccount ?p2") auto
  then have "publicKey a = key_A"
    using constructor_throws_iff[of ?p2 example_lib CrankAccount] by simp
  with one a show ?thesis by blast
qed

text \<open>
  C6. The key and bump that \<open>ProgramStateAccount.fromSeed\<close> returns are those of the
  derivation from the seed \<open>SB_STATE_V1\<close> under the program id, and those of
  \<open>LeaseAccount.fromSeed\<close> are those of the derivation from the lease tag and the bytes
  of leaser and target: nothing else about the program object or the key objects
  matters, so invocations with the same program id and the same key bytes agree.
\<close>

theorem fromSeed_deterministic:
  assumes "programId prog = programId prog'"
    and "toBytes leaser = toBytes leaser'"
    and "toBytes target = toBytes target'"
  shows "map_sum id (map_prod publicKey id) (ProgramStateAccount_fromSeed L prog)
           = findProgramAddressSync L [Buffer_from ''SB_STATE_V1''] (programId prog)
       \<and> map_sum id (map_prod publicKey id) (ProgramStateAccount_fromSeed L prog')
           = map_sum id (map_prod publicKey id) (ProgramStateAccount_fromSeed L prog)
       \<and> map_sum id (map_prod publicKey id) (LeaseAccount_fromSeed L prog leaser target)
           = findProgramAddressSync L
               [Buffer_from ''lease_account'', toBytes leaser, toBytes target] (programId prog)
       \<and> map_sum id (map_prod publicKey id) (LeaseAccount_fromSeed L prog' leaser' target')
           = map_sum id (map_prod publicKey id) (LeaseAccount_fromSeed L prog leaser target)"
  using assms
  by (auto simp add: ProgramStateAccount_fromSeed_def LeaseAccount_fromSeed_def
        constructor_def split: sum.splits prod.splits)

theorem fromSeed_deterministic_witness:
  "map_sum id (map_prod publicKey id)
     (ProgramStateAccount_fromSeed example_lib (example_program\<lparr>provider_wallet := key_C\<rparr>))
     = Inr (PublicKey 0 (addr 0), 254)
   \<and> map_sum id (map_prod publicKey id)
       (LeaseAccount_fromSeed example_lib (example_program\<lparr>provider_wallet := key_C\<rparr>)
          (PublicKey 77 (addr 1)) queue_key)
     = Inr (PublicKey 0 (addr 101), 255)"
proof -
  have a: "programId example_program = programId (example_program\<lparr>provider_wallet := key_C\<rparr>)"
    by simp
  have b: "toBytes key_A = toBytes (PublicKey 77 (addr 1))" by (simp add: key_A_def)
  from fromSeed_deterministic[OF a b refl, of example_lib queue_key]
  show ?thesis
    using example_state example_derive[of 1 1] by (simp add: key_A_def)
qed

section \<open>Properties of getLatestValue\<close>

text \<open>
  C10. The claim is that, unless \<open>numSuccess\<close> is 0 or absent, the method returns the
  quotient. With one successful round and the mantissa \<open>2^53\<close> it does not return:
  \<open>mantissa.toNumber()\<close> fails its assertion, and the method throws that error.
\<close>

theorem getLatestValue_53_bits_counterexample:
  "numSuccess_or_0 (aggregator_with 9007199254740992 0) = 1
   \<and> getLatestValue example_Number Map.empty feed_account
         (Defined (aggregator_with 9007199254740992 0))
       = Inl (Error ''Number can only safely store up to 53 bits'')"
  by (simp add: getLatestValue_def numSuccess_or_0_def aggregator_with_def BN_toNumber_def)

text \<open>
  C10, as the code has it. For the aggregator passed in, or else the one loaded: the
  method throws the error \<open>Aggregator currently holds no value.\<close> exactly when
  \<open>latestConfirmedRound\<close> is absent or its \<open>numSuccess\<close> is absent or 0. Otherwise,
  when the magnitudes of the mantissa and of the scale of the result are both below
  \<open>2^53\<close>, it returns the mantissa divided by \<open>Math.pow(10, scale)\<close>, both computed
  with the operations on numbers; when one of them is not, it throws the error of
  \<open>toNumber()\<close>.
\<close>

theorem getLatestValue_result:
  assumes "(case aggregator of
              Defined a' \<Rightarrow> Inr a'
            | _ \<Rightarrow> AggregatorAccount_loadData store this) = Inr a"
  shows "(getLatestValue N store this aggregator
            = Inl (Error ''Aggregator currently holds no value.'')
          \<longleftrightarrow> latestConfirmedRound a = Undefined \<or> latestConfirmedRound a = Null
              \<or> (\<exists>r. latestConfirmedRound a = Defined r
                    \<and> (numSuccess r = Undefined \<or> numSuccess r = Null
                        \<or> numSuccess r = Defined 0)))
       \<and> (\<forall>r k. latestConfirmedRound a = Defined r \<and> numSuccess r = Defined k \<and> k \<noteq> 0 \<longrightarrow>
             (if \<bar>result_mantissa (result r)\<bar> < 2 ^ 53 \<and> \<bar>result_scale (result r)\<bar> < 2 ^ 53
              then getLatestValue N store this aggregator
                     = Inr (Number_divide N (result_mantissa (result r))
                              (Math_pow N 10 (result_scale (result r))))
              else getLatestValue N store this aggregator
                     = Inl (Error ''Number can only safely store up to 53 bits'')))"
proof -
  have unfold: "getLatestValue N store this aggregator =
      (if numSuccess_or_0 a = 0 then Inl (Error ''Aggregator currently holds no value.'')
       else
         (case latestConfirmedRound a of
            Defined r \<Rightarrow>
              (case BN_toNumber (result_mantissa (result r)) of
                 Inl e \<Rightarrow> Inl e
               | Inr mantissa' \<Rightarrow>
                   (case BN_toNumber (result_scale (result r)) of
                      Inl e \<Rightarrow> Inl e
                    | Inr scale' \<Rightarrow>
                        Inr (Number_divide N mantissa' (Math_pow N 10 scale'))))
          | _ \<Rightarrow> Inl TypeError))"
    using assms by (simp add: getLatestValue_def)
  have zero: "numSuccess_or_0 a = 0
      \<longleftrightarrow> latestConfirmedRound a = Undefined \<or> latestConfirmedRound a = Null
          \<or> (\<exists>r. latestConfirmedRound a = Defined r
                \<and> (numSuccess r = Undefined \<or> numSuccess r = Null
                    \<or> numSuccess r = Defined 0))"
    by (auto simp add: numSuccess_or_0_def split: optional.splits)
  have first: "getLatestValue N store this aggregator
        = Inl (Error ''Aggregator currently holds no value.'')
      \<longleftrightarrow> numSuccess_or_0 a = 0"
    by (auto simp add: unfold BN_toNumber_def split: optional.splits)
  have second: "\<forall>r k. latestConfirmedRound a = Defined r \<and> numSuccess r = Defined k \<and> k \<noteq> 0 \<longrightarrow>
      (if \<bar>result_mantissa (result r)\<bar> < 2 ^ 53 \<and> \<bar>result_scale (result r)\<bar> < 2 ^ 53
       then getLatestValue N store this aggregator
              = Inr (Number_divide N (result_mantissa (result r))
                       (Math_pow N 10 (result_scale (result r))))
       else getLatestValue N store this aggregator
              = Inl (Error ''Number can only safely store up to 53 bits''))"
    by (auto simp add: unfold numSuccess_or_0_def BN_toNumber_def)
  from first zero second show ?thesis by blast
qed

theorem getLatestValue_result_witness:
  "getLatestValue example_Number Map.empty feed_account (Defined (aggregator_with 12345 2))
     = Inr (2469 / 20)
   \<and> getLatestValue example_Number Map.empty feed_account
         (Defined \<lparr>latestConfirmedRound = Null\<rparr>)
     = Inl (Error ''Aggregator currently holds no value.'')
   \<and> getLatestValue example_Number Map.empty feed_account
         (Defined (aggregator_with 1 9007199254740992))
     = Inl (Error ''Number can only safely store up to 53 bits'')"
proof -
  let ?r = "\<lparr>numSuccess = Defined 1, result = \<lparr>result_mantissa = 12345, result_scale = 2\<rparr>\<rparr>"
  have a: "(case Defined (aggregator_with 12345 2) of
              Defined a' \<Rightarrow> Inr a'
            | _ \<Rightarrow> AggregatorAccount_loadData Map.empty feed_account)
           = Inr (aggregator_with 12345 2)"
    by simp
  have r: "latestConfirmedRound (aggregator_with 12345 2) = Defined ?r
      \<and> numSuccess ?r = Defined 1 \<and> (1::int) \<noteq> 0"
    by (simp add: aggregator_with_def)
  from getLatestValue_result[OF a, of example_Number] r
  have "(if \<bar>result_mantissa (result ?r)\<bar> < 2 ^ 53 \<and> \<bar>result_scale (result ?r)\<bar> < 2 ^ 53
         then getLatestValue example_Number Map.empty feed_account
                (Defined (aggregator_with 12345 2))
              = Inr (Number_divide example_Number (result_mantissa (result ?r))
                       (Math_pow example_Number 10 (result_scale (result ?r))))
         else getLatestValue example_Number Map.empty feed_account
                (Defined (aggregator_with 12345 2))
              = Inl (Error ''Number can only safely store up to 53 bits''))"
    by blast
  then have one: "getLatestValue example_Number Map.empty feed_account
      (Defined (aggregator_with 12345 2)) = Inr (2469 / 20)"
    by (simp add: example_Number_def)
  have b: "(case Defined \<lparr>latestConfirmedRound = Null\<rparr> of
              Defined a' \<Rightarrow> Inr a'
            | _ \<Rightarrow> AggregatorAccount_loadData Map.empty feed_account)
           = Inr \<lparr>latestConfirmedRound = Null\<rparr>"
    by simp
  have two: "getLatestValue example_Number Map.empty feed_account
      (Defined \<lparr>latestConfirmedRound = Null\<rparr>)
      = Inl (Error ''Aggregator currently holds no value.'')"
    using getLatestValue_result[OF b, of example_Number] by simp
  let ?q = "\<lparr>numSuccess = Defined 1,
             result = \<lparr>result_mantissa = 1, result_scale = 9007199254740992\<rparr>\<rparr>"
  have c: "(case Defined (aggregator_with 1 9007199254740992) of
              Defined a' \<Rightarrow> Inr a'
            | _ \<Rightarrow> AggregatorAccount_loadData Map.empty feed_account)
           = Inr (aggregator_with 1 9007199254740992)"
    by simp
  have q: "latestConfirmedRound (aggregator_with 1 9007199254740992) = Defined ?q
      \<and> numSuccess ?q = Defined 1 \<and> (1::int) \<noteq> 0"
    by (simp add: aggregator_with_def)
  from getLatestValue_result[OF c, of example_Number] q
  have "(if \<bar>result_mantissa (result ?q)\<bar> < 2 ^ 53 \<and> \<bar>result_scale (result ?q)\<bar> < 2 ^ 53
         then getLatestValue example_Number Map.empty feed_account
                (Defined (aggregator_with 1 9007199254740992))
              = Inr (Number_divide example_Number (result_mantissa (result ?q))
                       (Math_pow example_Number 10 (result_scale (result ?q))))
         else getLatestValue example_Number Map.empty feed_account
                (Defined (aggregator_with 1 9007199254740992))
              = Inl (Error ''Number can only safely store up to 53 bits''))"
    by blast
  then have three: "getLatestValue example_Number Map.empty feed_account
      (Defined (aggregator_with 1 9007199254740992))
      = Inl (Error ''Number can only safely store up to 53 bits'')"
    by simp
  from one two three show ?thesis by blast
qed

section \<open>Properties of peakReady\<close>

text \<open>
  C1. The claim is that the keys returned by \<open>peakReady\<close> are in ascending order of
  their bytes. With \<open>key_B\<close> stored before \<open>key_A\<close> and both due, the method returns
  \<open>[key_B, key_A]\<close>, whatever \<open><\<close> on the key bytes yields: the final sort's
  comparator returns a boolean and leaves the order as it is.
\<close>

theorem peakReady_not_sorted_by_address:
  "peakReady L (world_of 1700000000000 [row key_B 1600000000, row key_A 1600000001] Map.empty)
     crank_account 10 = Inr [key_B, key_A]
   \<and> \<not> sorted (map toBytes [key_B, key_A])"
  by (simp add: eval_crank key_A_def key_B_def word_le_def)

text \<open>
  C2. The claim is that the reference time is an argument of the selector. It is not:
  \<open>peakReady\<close> reads \<open>Date.now()\<close>, and the same call on the same crank gives
  different results at different times.
\<close>

theorem peakReady_reads_clock_counterexample:
  "peakReady example_lib (world_of 1599999999000 example_rows Map.empty) crank_account 10
   \<noteq> peakReady example_lib (world_of 1700000000000 example_rows Map.empty) crank_account 10"
  by (simp add: eval_crank example_rows_def)

text \<open>
  C2, as the code has it. The result of \<open>peakReady\<close> depends on the world only through
  the crank accounts and the second the clock is in: two calls with the same limit
  that load the same crank data within the same second return the same sequence.
\<close>

theorem peakReady_same_second:
  assumes "crankAccountData w = crankAccountData w'"
    and "Date_now w div 1000 = Date_now w' div 1000"
  shows "peakReady L w this n = peakReady L w' this n"
  using assms by (simp add: peakReady_chain CrankAccount_loadData_def split: sum.splits)

theorem peakReady_same_second_witness:
  "Date_now (world_of 1700000000000 example_rows Map.empty) div 1000
     = Date_now (world_of 1700000000999 example_rows both_leases) div 1000
   \<and> peakReady example_lib (world_of 1700000000000 example_rows Map.empty) crank_account 10
     = peakReady example_lib (world_of 1700000000999 example_rows both_leases) crank_account 10"
proof -
  have a: "crankAccountData (world_of 1700000000000 example_rows Map.empty)
      = crankAccountData (world_of 1700000000999 example_rows both_leases)"
    by (simp add: world_of_def)
  have b: "Date_now (world_of 1700000000000 example_rows Map.empty) div 1000
      = Date_now (world_of 1700000000999 example_rows both_leases) div 1000"
    by simp
  from peakReady_same_second[OF a b] b show ?thesis by blast
qed

text \<open>
  C4. The claim is that the returned keys are exactly entries with
  \<open>nextTimestamp \<le> now\<close>, all of them when the limit allows. The filter applies
  \<open><=\<close> to two BN objects, which compares their decimal strings: at the clock reading
  1700000000000 ms an entry due since second 5 is left out (\<open>5\<close> sorts after
  \<open>1700000000\<close>), and an entry due at second 10000000000 is returned (\<open>10000000000\<close>
  sorts before \<open>1700000000\<close>).
\<close>

theorem peakReady_filter_compares_strings:
  "peakReady L (world_of 1700000000000 [row key_A 5] Map.empty) crank_account 10 = Inr []
   \<and> peakReady L (world_of 1700000000000 [row key_A 10000000000] Map.empty) crank_account 10
       = Inr [key_A]"
  by (simp add: eval_crank)

text \<open>
  C5. The claim is that the scenario A: 100, B: 90, C: 200 at second 150 with limit 1
  yields \<open>[B]\<close>. With the entries stored in that order the method returns \<open>[A]\<close>:
  B is not even selected (\<open>90\<close> sorts after \<open>150\<close> as a string). With all times
  raised by 1000, so that string and number order agree, both A and B are selected and
  the result is still \<open>[A]\<close>, because the due-time sort, whose comparator returns a
  boolean, does not bring B to the front before the truncation.
\<close>

theorem peakReady_scenario_limit_one:
  "peakReady L (world_of 150000 [row key_A 100, row key_B 90, row key_C 200] Map.empty)
     crank_account 1 = Inr [key_A]
   \<and> peakReady L (world_of 1150000 [row key_A 1100, row key_B 1090, row key_C 1200] Map.empty)
       crank_account 1 = Inr [key_A]"
  by (simp add: eval_crank)

section \<open>Properties of pop\<close>


lemma pop_loop_first_failure:
  "\<forall>k' \<in> set pre. \<exists>r. pop_step L w prog q k' = Inr r \<Longrightarrow>
   pop_step L w prog q k = Inl e \<Longrightarrow>
   pop_loop L w prog q (pre @ k # post) acc = Inl e"
proof (induction pre arbitrary: acc)
  case Nil
  then show ?case by simp
next
  case (Cons p pre)
  from Cons.prems(1) obtain l x where "pop_step L w prog q p = Inr (l, x)" by fastforce
  moreover have "pop_loop L w prog q (pre @ k # post) (acc @ [l, x]) = Inl e"
    using Cons.IH Cons.prems by simp
  ultimately show ?case by simp
qed

lemma pop_loop_failure:
  "k \<in> set keys \<Longrightarrow> pop_step L w prog q k = Inl e \<Longrightarrow>
   \<exists>e'. pop_loop L w prog q keys acc = Inl e'"
proof (induction keys arbitrary: acc)
  case Nil
  then show ?case by simp
next
  case (Cons p keys)
  show ?case
  proof (cases "pop_step L w prog q p")
    case (Inl e0)
    then show ?thesis by simp
  next
    case (Inr r)
    obtain l x where r: "r = (l, x)" by (cases r)
    have "k \<noteq> p" using Inr Cons.prems(2) by auto
    with Cons.prems have "k \<in> set keys" by simp
    from Cons.IH[OF this Cons.prems(2)] show ?thesis using Inr r by simp
  qed
qed

lemma pop_loop_error_is_first_failure:
  "k \<in> set keys \<Longrightarrow> pop_step L w prog q k = Inl e \<Longrightarrow>
   \<exists>pre k' post e'.
      keys = pre @ k' # post
      \<and> (\<forall>k'' \<in> set pre. \<exists>r. pop_step L w prog q k'' = Inr r)
      \<and> pop_step L w prog q k' = Inl e'
      \<and> pop_loop L w prog q keys acc = Inl e'"
proof (induction keys arbitrary: acc)
  case Nil
  then show ?case by simp
next
  case (Cons p keys)
  show ?case
  proof (cases "pop_step L w prog q p")
    case (Inl e0)
    then have "p # keys = [] @ p # keys
        \<and> (\<forall>k'' \<in> set []. \<exists>r. pop_step L w prog q k'' = Inr r)
        \<and> pop_step L w prog q p = Inl e0
        \<and> pop_loop L w prog q (p # keys) acc = Inl e0"
      by simp
    then show ?thesis by blast
  next
    case (Inr r)
    obtain l x where r: "r = (l, x)" by (cases r)
    have "k \<noteq> p" using Inr Cons.prems(2) by auto
    with Cons.prems have "k \<in> set keys" by simp
    from Cons.IH[OF this Cons.prems(2), of "acc @ [l, x]"] obtain pre k' post e' where
      split: "keys = pre @ k' # post"
      and ok: "\<forall>k'' \<in> set pre. \<exists>r. pop_step L w prog q k'' = Inr r"
      and bad: "pop_step L w prog q k' = Inl e'"
      and loop: "pop_loop L w prog q keys (acc @ [l, x]) = Inl e'"
      by blast
    have "p # keys = (p # pre) @ k' # post
        \<and> (\<forall>k'' \<in> set (p # pre). \<exists>r. pop_step L w prog q k'' = Inr r)
        \<and> pop_step L w prog q k' = Inl e'
        \<and> pop_loop L w prog q (p # keys) acc = Inl e'"
      using split ok bad loop Inr r by simp
    then show ?thesis by blast
  qed
qed




lemma pop_unfold:
  assumes "CrankAccount_loadData w this = Inr crank"
    and "peakReady L w this 10 = Inr keys"
  shows "pop L w this params =
      (case pop_loop L w (program this) (queuePubkey crank) keys keys of
         Inl e \<Rightarrow> Inl e
       | Inr pushed \<Rightarrow>
           (case ProgramStateAccount_fromSeed L (program this) of
              Inl e \<Rightarrow> Inl e
            | Inr (st, bump) \<Rightarrow>
                Inr \<lparr>arg_stateBump = bump, accounts_crank = publicKey this,
                     accounts_oracleQueue = queuePubkey crank,
                     accounts_programState = publicKey st,
                     accounts_payoutWallet = payoutWallet params,
                     accounts_tokenProgram = TOKEN_PROGRAM_ID L,
                     remainingAccounts =
                       map (\<lambda>k. \<lparr>isSigner = False, isWritable = True, meta_pubkey = k\<rparr>)
                         (Array_sort (\<lambda>a b. Buffer_compare (toBuffer a) (toBuffer b))
                            pushed)\<rparr>))"
  using assms by (simp add: pop_def Let_def split: sum.splits prod.splits)




text \<open>
  C7. The claim is that a missing lease record makes \<open>pop\<close> fail with a
  \<open>MissingFundingRecord\<close> error that names the target. The method has no error of its
  own: the error of \<open>fetch\<close> leaves it unchanged, and that error names the lease
  address, which is not the target's.
\<close>

theorem pop_error_names_lease_counterexample:
  "peakReady example_lib (world_of 1700000000000 [row key_A 1600000001] Map.empty)
     crank_account 10 = Inr [key_A]
   \<and> pop example_lib (world_of 1700000000000 [row key_A 1600000001] Map.empty) crank_account
        \<lparr>payoutWallet = key_C\<rparr> = Inl (AccountDoesNotExist (addr 101))
   \<and> addr 101 \<noteq> toBuffer key_A"
proof -
  let ?w = "world_of 1700000000000 [row key_A 1600000001] Map.empty"
  have keys: "peakReady example_lib ?w crank_account 10 = Inr [key_A]"
    by (simp add: eval_crank)
  have "pop_step example_lib ?w example_program queue_key key_A
      = Inl (AccountDoesNotExist (addr 101))"
    by (simp add: pop_step_def example_derive key_A_def constructor_def
          LeaseAccount_loadData_def fetch_def)
  then have "pop example_lib ?w crank_account \<lparr>payoutWallet = key_C\<rparr>
      = Inl (AccountDoesNotExist (addr 101))"
    by (simp add: pop_unfold[OF load_crank keys])
  with keys show ?thesis by (simp add: key_A_def)
qed

text \<open>
  C7, as the code has it. If the store has no record at the lease address derived for
  one of the selected keys, \<open>pop\<close> hands nothing to the remote call: it fails as a
  whole. Its error is the one that the first selected key whose step fails raised,
  unchanged. When every key before the one with the missing record went through, that
  is the error \<open>fetch\<close> raised for the lease address.
\<close>

theorem pop_missing_lease_aborts:
  assumes "CrankAccount_loadData w this = Inr crank"
    and "peakReady L w this 10 = Inr keys"
    and "k \<in> set keys"
    and "LeaseAccount_fromSeed L (program this) k (queuePubkey crank) = Inr (la, b)"
    and "leaseAccountData w (toBuffer (publicKey la)) = None"
  shows "(\<forall>call. pop L w this params \<noteq> Inr call)
       \<and> (\<exists>pre k' post e.
            keys = pre @ k' # post
            \<and> (\<forall>k'' \<in> set pre. \<exists>r. pop_step L w (program this) (queuePubkey crank) k'' = Inr r)
            \<and> pop_step L w (program this) (queuePubkey crank) k' = Inl e
            \<and> pop L w this params = Inl e)
       \<and> (\<forall>pre post.
            keys = pre @ k # post
            \<and> (\<forall>k' \<in> set pre. \<exists>r. pop_step L w (program this) (queuePubkey crank) k' = Inr r)
            \<longrightarrow> pop L w this params = Inl (AccountDoesNotExist (toBuffer (publicKey la))))"
proof -
  have step: "pop_step L w (program this) (queuePubkey crank) k
      = Inl (AccountDoesNotExist (toBuffer (publicKey la)))"
    using assms(4,5)
    by (simp add: pop_step_def constructor_def LeaseAccount_loadData_def fetch_def)
  note popeq = pop_unfold[OF assms(1,2), of params]
  from pop_loop_failure[OF assms(3) step] obtain e' where
    "pop_loop L w (program this) (queuePubkey crank) keys keys = Inl e'" by blast
  then have none: "\<forall>call. pop L w this params \<noteq> Inr call"
    by (simp add: popeq)
  have first: "\<forall>pre post.
      keys = pre @ k # post
      \<and> (\<forall>k' \<in> set pre. \<exists>r. pop_step L w (program this) (queuePubkey crank) k' = Inr r)
      \<longrightarrow> pop L w this params = Inl (AccountDoesNotExist (toBuffer (publicKey la)))"
  proof (intro allI impI)
    fix pre post
    assume a: "keys = pre @ k # post
      \<and> (\<forall>k' \<in> set pre. \<exists>r. pop_step L w (program this) (queuePubkey crank) k' = Inr r)"
    then have "pop_loop L w (program this) (queuePubkey crank) (pre @ k # post) keys
        = Inl (AccountDoesNotExist (toBuffer (publicKey la)))"
      using pop_loop_first_failure[OF _ step] by blast
    with a show "pop L w this params = Inl (AccountDoesNotExist (toBuffer (publicKey la)))"
      by (simp add: popeq)
  qed
  from pop_loop_error_is_first_failure[OF assms(3) step, of keys] obtain pre k' post e where
    "keys = pre @ k' # post"
    "\<forall>k'' \<in> set pre. \<exists>r. pop_step L w (program this) (queuePubkey crank) k'' = Inr r"
    "pop_step L w (program this) (queuePubkey crank) k' = Inl e"
    "pop_loop L w (program this) (queuePubkey crank) keys keys = Inl e"
    by blast
  then have some: "\<exists>pre k' post e.
      keys = pre @ k' # post
      \<and> (\<forall>k'' \<in> set pre. \<exists>r. pop_step L w (program this) (queuePubkey crank) k'' = Inr r)
      \<and> pop_step L w (program this) (queuePubkey crank) k' = Inl e
      \<and> pop L w this params = Inl e"
    by (auto simp add: popeq)
  from none some first show ?thesis by blast
qed

lemma missing_step:
  "pop_step example_lib (world_of t rows only_B_lease) example_program queue_key key_B
     = Inr (PublicKey 0 (addr 102), escrow_B)"
  by (simp add: pop_step_def example_derive key_B_def constructor_def
        LeaseAccount_loadData_def fetch_def only_B_lease_def)

theorem pop_missing_lease_aborts_witness:
  "peakReady example_lib (world_of 1700000000000 example_rows only_B_lease) crank_account 10
     = Inr [key_B, key_A]
   \<and> leaseAccountData (world_of 1700000000000 example_rows only_B_lease) (addr 101) = None
   \<and> pop example_lib (world_of 1700000000000 example_rows only_B_lease) crank_account
        \<lparr>payoutWallet = key_C\<rparr> = Inl (AccountDoesNotExist (addr 101))"
proof -
  let ?w = "world_of 1700000000000 example_rows only_B_lease"
  let ?la = "\<lparr>account_class = LeaseAccount, program = example_program,
              publicKey = PublicKey 0 (addr 101), keypair = Undefined\<rparr>"
  have h1: "CrankAccount_loadData ?w crank_account = Inr (crank_of example_rows)" by simp
  have h2: "peakReady example_lib ?w crank_account 10 = Inr [key_B, key_A]"
    by (rule example_keys)
  have h3: "key_A \<in> set [key_B, key_A]" by simp
  have h4: "LeaseAccount_fromSeed example_lib (program crank_account) key_A
              (queuePubkey (crank_of example_rows)) = Inr (?la, 255)"
    using example_derive[of 1 1] by (simp add: key_A_def)
  have h5: "leaseAccountData ?w (toBuffer (publicKey ?la)) = None"
    by (simp add: only_B_lease_def)
  have pre: "[key_B, key_A] = [key_B] @ key_A # []
      \<and> (\<forall>k' \<in> set [key_B]. \<exists>r. pop_step example_lib ?w (program crank_account)
             (queuePubkey (crank_of example_rows)) k' = Inr r)"
    by (simp add: missing_step)
  from pop_missing_lease_aborts[OF h1 h2 h3 h4 h5, of "\<lparr>payoutWallet = key_C\<rparr>"] pre
  have "pop example_lib ?w crank_account \<lparr>payoutWallet = key_C\<rparr>
      = Inl (AccountDoesNotExist (toBuffer (publicKey ?la)))"
    by blast
  with h2 h5 show ?thesis by simp
qed

end
